theory Spec2Isabelle
  imports Main "HOL-Library.AList"
begin

section \<open>JavaScript values\<close>

text \<open>
  The proxy function (\<^verbatim>\<open>supabase/functions/youtube-api/index.ts\<close>) and the browser
  client (\<^verbatim>\<open>services/youtube.ts\<close>, which the sources hold in one file with
  \<^verbatim>\<open>src/lib/supabase.ts\<close>) pass parsed JSON around untyped, so the model carries
  JSON values. An object keeps its members in order, and \<open>JSON.parse\<close> never
  yields the same key twice. A value of type \<open>json option\<close> is a JavaScript
  value that may be \<open>undefined\<close> (\<open>None\<close>).

  The code never calculates with a number it has parsed: it tests it for truth and it
  converts it to text, nothing else. A number is therefore kept as the text that
  \<open>String\<close> writes for it: \<open>5\<close> for 5, \<open>-0.5\<close> for one half below
  zero, \<open>1e+21\<close> for ten to the 21, and \<open>0\<close> for zero of either sign. That
  text determines the double (up to the sign of zero), so nothing of IEEE arithmetic has
  to be modelled; a text that no number writes is no value \<open>JSON.parse\<close> yields.

  A character of a \<open>string\<close> is a code unit below 256: the strings of the model
  are the JavaScript strings made of such code units.
\<close>

datatype json =
    JNull
  | JBool bool
  | JNum string
  | JStr string
  | JArr "json list"
  | JObj "(string \<times> json) list"

text \<open>
  A thrown value. All three kinds are instances of \<open>Error\<close>; the client tells
  \<open>TypeError\<close> apart with \<open>instanceof\<close>.
\<close>

datatype js_error = Error string | TypeError string | SyntaxError string

fun message :: "js_error \<Rightarrow> string" where
  "message (Error m) = m"
| "message (TypeError m) = m"
| "message (SyntaxError m) = m"

text \<open>Truthiness of a value, as \<open>!v\<close>, \<open>v || d\<close> and \<open>if (v)\<close> read it.\<close>

fun js_truthy :: "json option \<Rightarrow> bool" where
  "js_truthy None = False"
| "js_truthy (Some JNull) = False"
| "js_truthy (Some (JBool b)) = b"
| "js_truthy (Some (JNum n)) = (n \<noteq> ''0'')"
| "js_truthy (Some (JStr s)) = (s \<noteq> [])"
| "js_truthy (Some (JArr xs)) = True"
| "js_truthy (Some (JObj kvs)) = True"

text \<open>
  Reading the property \<open>k\<close> of a value that is neither \<open>null\<close> nor
  \<open>undefined\<close>. The names the code reads (\<open>error\<close>, \<open>message\<close>,
  \<open>items\<close>, \<open>accessToken\<close>, \<open>text\<close>, \<open>title\<close>,
  \<open>description\<close>) are no built-in property of an array, a string, a number or a
  boolean, where the read gives \<open>undefined\<close>.
\<close>

fun js_get :: "json \<Rightarrow> string \<Rightarrow> json option" where
  "js_get (JObj kvs) k = map_of kvs k"
| "js_get v k = None"

text \<open>
  The decimal digits of an integer. This is how a template literal writes the reading
  of \<open>Date.now()\<close>, an integer of milliseconds whose magnitude never exceeds
  8.64e15 (below ten to the 21, \<open>String\<close> writes an integer in plain digits).
\<close>

fun digits :: "nat \<Rightarrow> string" where
  "digits n =
     (if n < 10 then [''0123456789'' ! n]
      else digits (n div 10) @ [''0123456789'' ! (n mod 10)])"

declare digits.simps [simp del]

definition show_int :: "int \<Rightarrow> string" where
  "show_int i = (if i < 0 then CHR ''-'' # digits (nat (- i)) else digits (nat i))"

fun join_with :: "string \<Rightarrow> string list \<Rightarrow> string" where
  "join_with sep [] = []"
| "join_with sep [x] = x"
| "join_with sep (x # y # ys) = x @ sep @ join_with sep (y # ys)"

text \<open>
  \<open>String(v)\<close> of a parsed JSON value, the conversion a template literal and
  \<open>new Error(v)\<close> apply. A number gives its text. An array joins its elements with commas, \<open>null\<close>
  elements as the empty string. A plain object gives \<open>[object Object]\<close>, unless
  it has a member \<open>toString\<close> of its own (which JSON cannot make callable): then
  the conversion throws a \<open>TypeError\<close>, here \<open>None\<close>.
\<close>

fun js_string :: "json \<Rightarrow> string option" where
  "js_string JNull = Some ''null''"
| "js_string (JBool b) = Some (if b then ''true'' else ''false'')"
| "js_string (JNum n) = Some n"
| "js_string (JStr s) = Some s"
| "js_string (JArr xs) =
     map_option (join_with '','')
       (those (map (\<lambda>x. if x = JNull then Some [] else js_string x) xs))"
| "js_string (JObj kvs) =
     (if map_of kvs ''toString'' = None then Some ''[object Object]'' else None)"

text \<open>
  The errors the runtime itself throws, with the messages of V8. Other engines word them
  differently; no wording of them includes \<open>fetch\<close>, which is all the code ever
  asks of such a message.
\<close>

definition cannot_convert :: js_error where
  "cannot_convert = TypeError ''Cannot convert object to primitive value''"

definition cannot_destructure :: js_error where
  "cannot_destructure =
     TypeError ''Cannot destructure property 'accessToken' of '(intermediate value)' as it is null.''"

definition null_has_no_error :: js_error where
  "null_has_no_error = TypeError ''Cannot read properties of null (reading 'error')''"

definition null_has_no_items :: js_error where
  "null_has_no_items = TypeError ''Cannot read properties of null (reading 'items')''"

definition null_has_no_0 :: js_error where
  "null_has_no_0 = TypeError ''Cannot read properties of null (reading '0')''"

definition undefined_has_no_0 :: js_error where
  "undefined_has_no_0 = TypeError ''Cannot read properties of undefined (reading '0')''"

text \<open>The text a template literal \<open>${v}\<close> inserts.\<close>

definition template :: "json option \<Rightarrow> js_error + string" where
  "template v =
     (case v of
        None \<Rightarrow> Inr ''undefined''
      | Some j \<Rightarrow> (case js_string j of None \<Rightarrow> Inl cannot_convert | Some s \<Rightarrow> Inr s))"

text \<open>A member of an object literal: \<open>JSON.stringify\<close> leaves out a member whose
  value is \<open>undefined\<close>.\<close>

definition json_member :: "string \<Rightarrow> json option \<Rightarrow> (string \<times> json) list" where
  "json_member k v = (case v of None \<Rightarrow> [] | Some j \<Rightarrow> [(k, j)])"

text \<open>\<open>URLSearchParams.get\<close>: the first value of the name, or \<open>null\<close>.\<close>

definition searchParams_get :: "(string \<times> string) list \<Rightarrow> string \<Rightarrow> string option" where
  "searchParams_get ps k = map_of ps k"

text \<open>A \<open>string | null\<close> as a JSON value, and inside a template literal.\<close>

definition nullable :: "string option \<Rightarrow> json" where
  "nullable v = (case v of None \<Rightarrow> JNull | Some s \<Rightarrow> JStr s)"

definition template_nullable :: "string option \<Rightarrow> string" where
  "template_nullable v = (case v of None \<Rightarrow> ''null'' | Some s \<Rightarrow> s)"

text \<open>\<open>!v\<close> for a \<open>string | null\<close> or \<open>string | undefined\<close>: the empty
  string is falsy too.\<close>

definition absent :: "string option \<Rightarrow> bool" where
  "absent v = (case v of None \<Rightarrow> True | Some s \<Rightarrow> s = [])"

section \<open>The proxy function\<close>

text \<open>
  \<^verbatim>\<open>Deno.serve(async (req) => ...)\<close> of \<^verbatim>\<open>youtube-api/index.ts\<close>. A request is
  its method, the query parameters of its URL and the outcome of \<open>req.json()\<close>
  (the parsed body, or the error the parse throws). The environment holds the
  variable \<open>YOUTUBE_API_KEY\<close>, the headers of \<^verbatim>\<open>_shared/cors.ts\<close> (a file outside
  the sources, so a parameter) and the upstream service, which answers a \<open>fetch\<close>.
\<close>

record request =
  req_method :: string
  req_params :: "(string \<times> string) list"
  req_json :: "js_error + json"

record fetch_args =
  fetch_url :: string
  fetch_method :: string
  fetch_headers :: "(string \<times> string) list"
  fetch_body :: "json option"

text \<open>\<open>fetch\<close> rejects, or resolves to a response with its \<open>ok\<close> flag and the
  outcome of \<open>response.json()\<close>.\<close>

datatype fetch_outcome =
    FetchRejects js_error
  | FetchResponse bool "js_error + json"

record proxy_env =
  YOUTUBE_API_KEY :: "string option"
  corsHeaders :: "(string \<times> string) list"
  upstream :: "fetch_args \<Rightarrow> fetch_outcome"

record response =
  res_status :: nat
  res_headers :: "(string \<times> string) list"
  res_body :: "json option"

definition YOUTUBE_BASE_URL :: string where
  "YOUTUBE_BASE_URL = ''https://www.googleapis.com/youtube/v3''"

text \<open>\<open>const { ... } = await req.json()\<close>: the parse may throw, and destructuring
  \<open>null\<close> throws.\<close>

definition destructured :: "js_error + json \<Rightarrow> js_error + json" where
  "destructured r =
     (case r of
        Inl e \<Rightarrow> Inl e
      | Inr JNull \<Rightarrow> Inl cannot_destructure
      | Inr v \<Rightarrow> Inr v)"

text \<open>
  The \<open>switch (action)\<close>: each case either throws or reaches its one \<open>fetch\<close>;
  the result is the error thrown or the arguments of that \<open>fetch\<close>. The body of an
  upstream request is kept as the value \<open>JSON.stringify\<close> writes out.
\<close>

definition switch_action :: "string \<Rightarrow> request \<Rightarrow> js_error + fetch_args" where
  "switch_action key req =
     (let action = searchParams_get (req_params req) ''action'';
          videoId = searchParams_get (req_params req) ''videoId''
      in
        if action = Some ''video-details'' then
          (if absent videoId then Inl (Error ''Video ID is required'')
           else Inr \<lparr>fetch_url = YOUTUBE_BASE_URL @ ''/videos?id='' @ template_nullable videoId
                          @ ''&part=snippet,statistics,status&key='' @ key,
                        fetch_method = ''GET'', fetch_headers = [], fetch_body = None\<rparr>)
        else if action = Some ''comments'' then
          (if absent videoId then Inl (Error ''Video ID is required'')
           else Inr \<lparr>fetch_url = YOUTUBE_BASE_URL @ ''/commentThreads?videoId=''
                          @ template_nullable videoId @ ''&part=snippet,replies&key='' @ key,
                        fetch_method = ''GET'', fetch_headers = [], fetch_body = None\<rparr>)
        else if action = Some ''post-comment'' then
          (if req_method req \<noteq> ''POST'' then Inl (Error ''POST method required'')
           else case destructured (req_json req) of
             Inl e \<Rightarrow> Inl e
           | Inr b \<Rightarrow>
               (case template (js_get b ''accessToken'') of
                  Inl e \<Rightarrow> Inl e
                | Inr accessToken \<Rightarrow>
                    Inr \<lparr>fetch_url = YOUTUBE_BASE_URL @ ''/commentThreads?part=snippet'',
                         fetch_method = ''POST'',
                         fetch_headers = [(''Authorization'', ''Bearer '' @ accessToken),
                                          (''Content-Type'', ''application/json'')],
                         fetch_body = Some (JObj [(''snippet'', JObj
                           [(''videoId'', nullable videoId),
                            (''topLevelComment'', JObj [(''snippet'', JObj
                               (json_member ''textOriginal'' (js_get b ''text'')))])])])\<rparr>))
        else if action = Some ''delete-comment'' then
          (if req_method req \<noteq> ''DELETE'' then Inl (Error ''DELETE method required'')
           else case destructured (req_json req) of
             Inl e \<Rightarrow> Inl e
           | Inr b \<Rightarrow>
               (let commentId = searchParams_get (req_params req) ''commentId'' in
                case template (js_get b ''accessToken'') of
                  Inl e \<Rightarrow> Inl e
                | Inr deleteToken \<Rightarrow>
                    Inr \<lparr>fetch_url = YOUTUBE_BASE_URL @ ''/comments?id=''
                           @ template_nullable commentId,
                         fetch_method = ''DELETE'',
                         fetch_headers = [(''Authorization'', ''Bearer '' @ deleteToken)],
                         fetch_body = None\<rparr>))
        else if action = Some ''update-video'' then
          (if req_method req \<noteq> ''PUT'' then Inl (Error ''PUT method required'')
           else case destructured (req_json req) of
             Inl e \<Rightarrow> Inl e
           | Inr b \<Rightarrow>
               (case template (js_get b ''accessToken'') of
                  Inl e \<Rightarrow> Inl e
                | Inr updateToken \<Rightarrow>
                    Inr \<lparr>fetch_url = YOUTUBE_BASE_URL @ ''/videos?part=snippet'',
                         fetch_method = ''PUT'',
                         fetch_headers = [(''Authorization'', ''Bearer '' @ updateToken),
                                          (''Content-Type'', ''application/json'')],
                         fetch_body = Some (JObj
                           [(''id'', nullable videoId),
                            (''snippet'', JObj
                               (json_member ''title'' (js_get b ''title'')
                                @ json_member ''description'' (js_get b ''description'')
                                @ [(''categoryId'', JStr ''22'')]))])\<rparr>))
        else Inl (Error ''Invalid action''))"

text \<open>\<open>new Error(data.error?.message || 'YouTube API error')\<close>, or the
  \<open>TypeError\<close> of reading \<open>data.error\<close> when \<open>data\<close> is \<open>null\<close>.\<close>

definition upstream_error :: "json \<Rightarrow> js_error" where
  "upstream_error data =
     (case data of
        JNull \<Rightarrow> null_has_no_error
      | _ \<Rightarrow>
          (let m = (case js_get data ''error'' of
                      None \<Rightarrow> None
                    | Some JNull \<Rightarrow> None
                    | Some e \<Rightarrow> js_get e ''message'')
           in case m of
                None \<Rightarrow> Error ''YouTube API error''
              | Some v \<Rightarrow>
                  if js_truthy (Some v)
                  then (case js_string v of None \<Rightarrow> cannot_convert | Some s \<Rightarrow> Error s)
                  else Error ''YouTube API error''))"

text \<open>
  The body of the \<open>try\<close>: the value it returns (the upstream data) or the error it
  throws, with the upstream requests it issued.
\<close>

definition try_block :: "proxy_env \<Rightarrow> request \<Rightarrow> (js_error + json) \<times> fetch_args list" where
  "try_block env req =
     (case YOUTUBE_API_KEY env of
        None \<Rightarrow> (Inl (Error ''YouTube API key not configured''), [])
      | Some key \<Rightarrow>
          if key = [] then (Inl (Error ''YouTube API key not configured''), [])
          else
            (case switch_action key req of
               Inl e \<Rightarrow> (Inl e, [])
             | Inr args \<Rightarrow>
                 (case upstream env args of
                    FetchRejects e \<Rightarrow> (Inl e, [args])
                  | FetchResponse ok parsed \<Rightarrow>
                      (case parsed of
                         Inl e \<Rightarrow> (Inl e, [args])
                       | Inr data \<Rightarrow>
                           (if \<not> ok then (Inl (upstream_error data), [args])
                            else (Inr data, [args]))))))"

definition json_headers :: "(string \<times> string) list \<Rightarrow> (string \<times> string) list" where
  "json_headers cors = AList.update ''Content-Type'' ''application/json'' cors"

text \<open>The handler: the response it returns and the upstream requests it issued.\<close>

definition handler :: "proxy_env \<Rightarrow> request \<Rightarrow> response \<times> fetch_args list" where
  "handler env req =
     (if req_method req = ''OPTIONS''
      then (\<lparr>res_status = 200, res_headers = corsHeaders env, res_body = None\<rparr>, [])
      else case try_block env req of
        (Inr data, calls) \<Rightarrow>
          (\<lparr>res_status = 200, res_headers = json_headers (corsHeaders env),
            res_body = Some data\<rparr>, calls)
      | (Inl error, calls) \<Rightarrow>
          (\<lparr>res_status = 400, res_headers = json_headers (corsHeaders env),
            res_body = Some (JObj [(''error'', JStr (message error))])\<rparr>, calls))"

section \<open>The browser client\<close>

text \<open>
  \<^verbatim>\<open>services/youtube.ts\<close>. A call to the proxy is identified by its query
  parameters (the URL is the function's URL followed by their encoding) and the
  \<open>RequestInit\<close> options; the two fixed headers are the same on every call and are
  left out. The environment answers the \<open>fetch\<close> and gives the time that
  \<open>new Date().toISOString()\<close> reads.
\<close>

record request_init =
  init_method :: "string option"
  init_body :: "json option"

record client_env =
  proxy :: "(string \<times> string) list \<Rightarrow> request_init \<Rightarrow> fetch_outcome"
  toISOString_now :: string

text \<open>\<open>s.includes(t)\<close>: \<open>t\<close> occurs in \<open>s\<close>.\<close>

fun js_includes :: "string \<Rightarrow> string \<Rightarrow> bool" where
  "js_includes [] t = (t = [])"
| "js_includes (c # s) t = (take (length t) (c # s) = t \<or> js_includes s t)"

definition getMockData :: "client_env \<Rightarrow> (string \<times> string) list \<Rightarrow> json" where
  "getMockData env params =
     (let action = searchParams_get params ''action'';
          videoId = searchParams_get params ''videoId''
      in
        if action = Some ''video-details'' then
          JObj [(''items'', JArr [JObj
            [(''id'', nullable videoId),
             (''snippet'', JObj
                [(''title'', JStr ''Sample YouTube Video''),
                 (''description'', JStr (''This is a sample video description. The actual ''
                    @ ''video details would be fetched from the YouTube API when the Edge ''
                    @ ''Function is properly deployed.'')),
                 (''thumbnails'', JObj [(''high'', JObj [(''url'',
                    JStr (''https://img.youtube.com/vi/'' @ template_nullable videoId
                          @ ''/hqdefault.jpg''))])]),
                 (''publishedAt'', JStr (toISOString_now env)),
                 (''channelTitle'', JStr ''Sample Channel'')]),
             (''statistics'', JObj
                [(''viewCount'', JStr ''1234567''),
                 (''likeCount'', JStr ''12345''),
                 (''commentCount'', JStr ''567'')]),
             (''status'', JObj [(''privacyStatus'', JStr ''public'')])]])]
        else if action = Some ''comments'' then
          JObj [(''items'', JArr [JObj
            [(''id'', JStr ''sample-comment-1''),
             (''snippet'', JObj
                [(''topLevelComment'', JObj [(''snippet'', JObj
                    [(''textDisplay'', JStr (''This is a sample comment. Real comments would ''
                        @ ''be fetched when the Edge Function is deployed.'')),
                     (''authorDisplayName'', JStr ''Sample User''),
                     (''publishedAt'', JStr (toISOString_now env)),
                     (''likeCount'', JNum ''5'')])]),
                 (''totalReplyCount'', JNum ''0'')])]])]
        else JObj [(''items'', JArr [])])"

text \<open>\<open>new Error(error.error || 'YouTube API request failed')\<close>, for the parsed
  body \<open>error\<close> of a response that is not ok.\<close>

definition proxy_error :: "json \<Rightarrow> js_error" where
  "proxy_error body =
     (case body of
        JNull \<Rightarrow> null_has_no_error
      | _ \<Rightarrow>
          (case js_get body ''error'' of
             None \<Rightarrow> Error ''YouTube API request failed''
           | Some v \<Rightarrow>
               if js_truthy (Some v)
               then (case js_string v of None \<Rightarrow> cannot_convert | Some s \<Rightarrow> Error s)
               else Error ''YouTube API request failed''))"

text \<open>\<open>error instanceof TypeError && error.message.includes('fetch')\<close>: how the
  client recognises that the Edge Function is not available.\<close>

definition not_available :: "js_error \<Rightarrow> bool" where
  "not_available error =
     (case error of TypeError m \<Rightarrow> js_includes m ''fetch'' | _ \<Rightarrow> False)"

text \<open>The \<open>catch\<close> of \<open>makeYouTubeRequest\<close>: mock data for such an error, for
  whatever action; any other error is thrown again.\<close>

definition catch_error :: "client_env \<Rightarrow> (string \<times> string) list \<Rightarrow> js_error \<Rightarrow> js_error + json" where
  "catch_error env params error =
     (if not_available error then Inr (getMockData env params) else Inl error)"

text \<open>
  \<open>makeYouTubeRequest\<close>: the value the promise resolves to, or the error it rejects
  with. On an ok response the function returns \<open>response.json()\<close> without awaiting
  it, so a failure of that parse does not pass through the \<open>catch\<close>.
\<close>

definition makeYouTubeRequest :: "client_env \<Rightarrow> (string \<times> string) list \<Rightarrow> request_init \<Rightarrow> js_error + json" where
  "makeYouTubeRequest env params options =
     (case proxy env params options of
        FetchRejects e \<Rightarrow> catch_error env params e
      | FetchResponse ok parsed \<Rightarrow>
          if \<not> ok then
            (case parsed of
               Inl e \<Rightarrow> catch_error env params e
             | Inr body \<Rightarrow> catch_error env params (proxy_error body))
          else parsed)"

definition no_options :: request_init where
  "no_options = \<lparr>init_method = None, init_body = None\<rparr>"

text \<open>\<open>v[0]\<close> for a value that is neither \<open>null\<close> nor \<open>undefined\<close>: the
  first element of an array (\<open>undefined\<close> when it is empty), the first character of
  a string, the member \<open>0\<close> of an object.\<close>

fun js_index0 :: "json \<Rightarrow> json option" where
  "js_index0 (JArr []) = None"
| "js_index0 (JArr (x # xs)) = Some x"
| "js_index0 (JStr []) = None"
| "js_index0 (JStr (c # cs)) = Some (JStr [c])"
| "js_index0 (JObj kvs) = map_of kvs ''0''"
| "js_index0 v = None"

text \<open>\<open>data.items[0]\<close>: reading a property of \<open>null\<close> or \<open>undefined\<close>
  throws.\<close>

definition first_item :: "json \<Rightarrow> js_error + json option" where
  "first_item data =
     (case data of
        JNull \<Rightarrow> Inl null_has_no_items
      | _ \<Rightarrow>
          (case js_get data ''items'' of
             None \<Rightarrow> Inl undefined_has_no_0
           | Some JNull \<Rightarrow> Inl null_has_no_0
           | Some items \<Rightarrow> Inr (js_index0 items)))"

definition getVideoDetails :: "client_env \<Rightarrow> string \<Rightarrow> js_error + json option" where
  "getVideoDetails env videoId =
     (case makeYouTubeRequest env [(''action'', ''video-details''), (''videoId'', videoId)] no_options of
        Inl e \<Rightarrow> Inl e
      | Inr data \<Rightarrow> first_item data)"

text \<open>\<open>data.items || []\<close>.\<close>

definition items_or_empty :: "json \<Rightarrow> js_error + json" where
  "items_or_empty data =
     (case data of
        JNull \<Rightarrow> Inl null_has_no_items
      | _ \<Rightarrow>
          (case js_get data ''items'' of
             None \<Rightarrow> Inr (JArr [])
           | Some items \<Rightarrow> Inr (if js_truthy (Some items) then items else JArr [])))"

definition getVideoComments :: "client_env \<Rightarrow> string \<Rightarrow> js_error + json" where
  "getVideoComments env videoId =
     (case makeYouTubeRequest env [(''action'', ''comments''), (''videoId'', videoId)] no_options of
        Inl e \<Rightarrow> Inl e
      | Inr data \<Rightarrow> items_or_empty data)"

definition postComment :: "client_env \<Rightarrow> string \<Rightarrow> string \<Rightarrow> string \<Rightarrow> js_error + json" where
  "postComment env videoId text accessToken =
     makeYouTubeRequest env [(''action'', ''post-comment''), (''videoId'', videoId)]
       \<lparr>init_method = Some ''POST'',
        init_body = Some (JObj [(''accessToken'', JStr accessToken), (''text'', JStr text)])\<rparr>"

definition deleteComment :: "client_env \<Rightarrow> string \<Rightarrow> string \<Rightarrow> js_error + json" where
  "deleteComment env commentId accessToken =
     makeYouTubeRequest env [(''action'', ''delete-comment''), (''commentId'', commentId)]
       \<lparr>init_method = Some ''DELETE'',
        init_body = Some (JObj [(''accessToken'', JStr accessToken)])\<rparr>"

definition updateVideo :: "client_env \<Rightarrow> string \<Rightarrow> string \<Rightarrow> string \<Rightarrow> string \<Rightarrow> js_error + json" where
  "updateVideo env videoId title description accessToken =
     makeYouTubeRequest env [(''action'', ''update-video''), (''videoId'', videoId)]
       \<lparr>init_method = Some ''PUT'',
        init_body = Some (JObj [(''accessToken'', JStr accessToken), (''title'', JStr title),
                                (''description'', JStr description)])\<rparr>"

section \<open>The panels\<close>

text \<open>
  The signed-in user that \<open>useAuth\<close> gives (the hook is outside the sources: the
  panels read \<open>user.id\<close> and \<open>user.email\<close>), and the calls a handler sends
  over the network, in the order it awaits them. The handlers modelled here reach the
  store only: the table \<open>notes\<close> and, through \<open>logEvent\<close>, the table
  \<open>event_logs\<close>.
\<close>

record user =
  user_id :: string
  user_email :: "string option"

datatype network_call =
    EventLogInsert string string json
  | NotesInsert string string string
  | NotesUpdate string string
  | NotesDelete string

text \<open>
  \<open>logEvent\<close> of \<^verbatim>\<open>src/hooks/useEventLogger.ts\<close>: nothing without a user;
  otherwise one insert of \<open>{user_id, event_type, event_data}\<close> into
  \<open>event_logs\<close>, whose outcome is ignored and whose failure is caught.
\<close>

definition logEvent :: "user option \<Rightarrow> string \<Rightarrow> json \<Rightarrow> network_call list" where
  "logEvent u eventType eventData =
     (case u of
        None \<Rightarrow> []
      | Some usr \<Rightarrow> [EventLogInsert (user_id usr) eventType eventData])"

text \<open>
  \<open>s.trim()\<close> strips white space and line terminators from both ends. Among the
  code units below 256 these are tab, line feed, vertical tab, form feed, carriage
  return, space and the no-break space U+00A0; every other one that \<open>trim\<close>
  strips (U+1680, U+2000 to U+200A, U+2028, U+2029, U+202F, U+205F, U+3000, U+FEFF)
  lies above.
\<close>

definition is_white_space :: "char \<Rightarrow> bool" where
  "is_white_space c =
     (c = CHR 0x09 \<or> c = CHR 0x0A \<or> c = CHR 0x0B \<or> c = CHR 0x0C \<or> c = CHR 0x0D
      \<or> c = CHR 0x20 \<or> c = CHR 0xA0)"

definition trim :: "string \<Rightarrow> string" where
  "trim s = rev (dropWhile is_white_space (rev (dropWhile is_white_space s)))"

subsection \<open>The notes panel\<close>

text \<open>
  \<^verbatim>\<open>src/components/NotesSection.tsx\<close>. A note is a row of the table \<open>notes\<close>.
  The store answers a write with the row it wrote or with an error; the value caught is
  an \<open>Error\<close> instance with its message, or some other value.
\<close>

record note_row =
  note_id :: string
  note_user_id :: string
  note_video_id :: string
  note_content :: string
  note_created_at :: string
  note_updated_at :: string

datatype caught = ErrorInstance string | OtherValue

text \<open>\<open>err instanceof Error ? err.message : fallback\<close>.\<close>

definition message_or :: "caught \<Rightarrow> string \<Rightarrow> string" where
  "message_or err fallback = (case err of ErrorInstance m \<Rightarrow> m | OtherValue \<Rightarrow> fallback)"

record notes_env =
  n_videoId :: string
  n_user :: "user option"
  notes_insert :: "string \<Rightarrow> string \<Rightarrow> string \<Rightarrow> caught + note_row"
  notes_update :: "string \<Rightarrow> string \<Rightarrow> caught + note_row"
  notes_delete :: "string \<Rightarrow> caught option"
  confirm :: bool

record notes_state =
  notes_seq :: "note_row list"
  n_loading :: bool
  n_error :: string
  editingNote :: "string option"
  editContent :: string
  newNote :: string
  adding :: bool

definition handleAddNote :: "notes_env \<Rightarrow> notes_state \<Rightarrow> notes_state \<times> network_call list" where
  "handleAddNote env s =
     (case n_user env of
        None \<Rightarrow> (s, [])
      | Some u \<Rightarrow>
          if trim (newNote s) = [] then (s, [])
          else
            (case notes_insert env (user_id u) (n_videoId env) (trim (newNote s)) of
               Inr data \<Rightarrow>
                 (s\<lparr>notes_seq := data # notes_seq s, newNote := [], adding := False\<rparr>,
                  NotesInsert (user_id u) (n_videoId env) (trim (newNote s))
                  # logEvent (n_user env) ''note_added''
                      (JObj [(''videoId'', JStr (n_videoId env)),
                             (''noteId'', JStr (note_id data))]))
             | Inl err \<Rightarrow>
                 (s\<lparr>n_error := message_or err ''Failed to add note'', adding := False\<rparr>,
                  NotesInsert (user_id u) (n_videoId env) (trim (newNote s))
                  # logEvent (n_user env) ''note_add_failed''
                      (JObj [(''videoId'', JStr (n_videoId env)),
                             (''error'', JStr (message_or err ''Failed to add note''))]))))"

definition handleEditNote :: "notes_env \<Rightarrow> notes_state \<Rightarrow> string \<Rightarrow> notes_state \<times> network_call list" where
  "handleEditNote env s noteId =
     (if trim (editContent s) = [] then (s, [])
      else
        (case notes_update env (trim (editContent s)) noteId of
           Inr data \<Rightarrow>
             (s\<lparr>notes_seq := map (\<lambda>note. if note_id note = noteId then data else note) (notes_seq s),
                editingNote := None, editContent := []\<rparr>,
              NotesUpdate (trim (editContent s)) noteId
              # logEvent (n_user env) ''note_updated''
                  (JObj [(''videoId'', JStr (n_videoId env)), (''noteId'', JStr noteId)]))
         | Inl err \<Rightarrow>
             (s\<lparr>n_error := message_or err ''Failed to update note''\<rparr>,
              NotesUpdate (trim (editContent s)) noteId
              # logEvent (n_user env) ''note_update_failed''
                  (JObj [(''videoId'', JStr (n_videoId env)), (''noteId'', JStr noteId),
                         (''error'', JStr (message_or err ''Failed to update note''))]))))"

definition handleDeleteNote :: "notes_env \<Rightarrow> notes_state \<Rightarrow> string \<Rightarrow> notes_state \<times> network_call list" where
  "handleDeleteNote env s noteId =
     (if \<not> confirm env then (s, [])
      else
        (case notes_delete env noteId of
           None \<Rightarrow>
             (s\<lparr>notes_seq := filter (\<lambda>note. note_id note \<noteq> noteId) (notes_seq s)\<rparr>,
              NotesDelete noteId
              # logEvent (n_user env) ''note_deleted''
                  (JObj [(''videoId'', JStr (n_videoId env)), (''noteId'', JStr noteId)]))
         | Some err \<Rightarrow>
             (s\<lparr>n_error := message_or err ''Failed to delete note''\<rparr>,
              NotesDelete noteId
              # logEvent (n_user env) ''note_delete_failed''
                  (JObj [(''videoId'', JStr (n_videoId env)), (''noteId'', JStr noteId),
                         (''error'', JStr (message_or err ''Failed to delete note''))]))))"

subsection \<open>The comments panel\<close>

text \<open>
  The component \<open>CommentsSection\<close>. A comment has the shape of the interface \<open>Comment\<close> of
  the client: \<open>snippet.topLevelComment.snippet\<close> is the record
  \<open>comment_snippet\<close>, \<open>snippet.totalReplyCount\<close> stands beside it, and
  \<open>replies\<close> is optional. The environment gives the clock: \<open>Date.now()\<close> and
  \<open>new Date().toISOString()\<close>.
\<close>

record comment_snippet =
  textDisplay :: string
  authorDisplayName :: string
  publishedAt :: string
  likeCount :: int

record reply =
  reply_id :: string
  reply_snippet :: comment_snippet

record comment =
  comment_id :: string
  topLevelComment :: comment_snippet
  totalReplyCount :: int
  replies :: "reply list option"

record comments_env =
  c_videoId :: string
  c_user :: "user option"
  Date_now :: int
  c_toISOString_now :: string

record comments_state =
  comments :: "comment list"
  c_loading :: bool
  c_error :: string
  newComment :: string
  posting :: bool

text \<open>\<open>user.email || 'You'\<close>.\<close>

definition email_or_You :: "user \<Rightarrow> string" where
  "email_or_You u = (if absent (user_email u) then ''You'' else template_nullable (user_email u))"

definition mockComment :: "comments_env \<Rightarrow> user \<Rightarrow> string \<Rightarrow> comment" where
  "mockComment env u txt =
     \<lparr>comment_id = ''mock-'' @ show_int (Date_now env),
      topLevelComment =
        \<lparr>textDisplay = txt, authorDisplayName = email_or_You u,
         publishedAt = c_toISOString_now env, likeCount = 0\<rparr>,
      totalReplyCount = 0,
      replies = None\<rparr>"

text \<open>
  \<open>handlePostComment\<close> and \<open>handleDeleteComment\<close>. Nothing in their \<open>try\<close>
  blocks can throw (\<open>logEvent\<close> catches its own failure), so the \<open>catch\<close>
  branches are never taken and \<open>error\<close> is never set.
\<close>

definition handlePostComment :: "comments_env \<Rightarrow> comments_state \<Rightarrow> comments_state \<times> network_call list" where
  "handlePostComment env s =
     (case c_user env of
        None \<Rightarrow> (s, [])
      | Some u \<Rightarrow>
          if trim (newComment s) = [] then (s, [])
          else
            (s\<lparr>comments := mockComment env u (newComment s) # comments s,
               newComment := [], posting := False\<rparr>,
             logEvent (c_user env) ''comment_attempted''
               (JObj [(''videoId'', JStr (c_videoId env)),
                      (''commentText'', JStr (newComment s))])))"

definition handleDeleteComment :: "comments_env \<Rightarrow> comments_state \<Rightarrow> string \<Rightarrow> comments_state \<times> network_call list" where
  "handleDeleteComment env s commentId =
     (s\<lparr>comments := filter (\<lambda>c. comment_id c \<noteq> commentId) (comments s)\<rparr>,
      logEvent (c_user env) ''comment_deleted''
        (JObj [(''videoId'', JStr (c_videoId env)), (''commentId'', JStr commentId)]))"

section \<open>Concrete runs\<close>

text \<open>
  Environments and requests on which the theorems below run the model: a proxy with
  and without its key in front of an upstream that answers every request with success,
  a browser whose \<open>fetch\<close> fails the way Chrome words it (\<open>Failed to fetch\<close>)
  and the way Safari words it (\<open>Load failed\<close>), a proxy that answers with no
  items and one that answers with two, and the two panels with a signed-in user.
\<close>

definition upstream_ok :: "fetch_args \<Rightarrow> fetch_outcome" where
  "upstream_ok args = FetchResponse True (Inr (JObj [(''kind'', JStr ''youtube#response'')]))"

definition cors_example :: "(string \<times> string) list" where
  "cors_example =
     [(''Access-Control-Allow-Origin'', ''*''),
      (''Access-Control-Allow-Headers'', ''authorization, x-client-info, apikey, content-type'')]"

definition configured_env :: proxy_env where
  "configured_env =
     \<lparr>YOUTUBE_API_KEY = Some ''server-key'', corsHeaders = cors_example, upstream = upstream_ok\<rparr>"

definition unconfigured_env :: proxy_env where
  "unconfigured_env =
     \<lparr>YOUTUBE_API_KEY = None, corsHeaders = cors_example, upstream = upstream_ok\<rparr>"

definition token_body :: json where
  "token_body =
     JObj [(''accessToken'', JStr ''token''), (''text'', JStr ''nice video!''),
           (''title'', JStr ''New title''), (''description'', JStr ''New description'')]"

definition details_request :: request where
  "details_request =
     \<lparr>req_method = ''GET'',
      req_params = [(''action'', ''video-details''), (''videoId'', ''abc123'')],
      req_json = Inl (SyntaxError ''Unexpected end of JSON input'')\<rparr>"

definition post_without_videoId :: request where
  "post_without_videoId =
     \<lparr>req_method = ''POST'', req_params = [(''action'', ''post-comment'')],
      req_json = Inr token_body\<rparr>"

definition update_without_videoId :: request where
  "update_without_videoId =
     \<lparr>req_method = ''PUT'', req_params = [(''action'', ''update-video'')],
      req_json = Inr token_body\<rparr>"

definition delete_without_commentId :: request where
  "delete_without_commentId =
     \<lparr>req_method = ''DELETE'', req_params = [(''action'', ''delete-comment'')],
      req_json = Inr token_body\<rparr>"

definition post_with_videoId :: request where
  "post_with_videoId =
     \<lparr>req_method = ''POST'',
      req_params = [(''action'', ''post-comment''), (''videoId'', ''abc123'')],
      req_json = Inr token_body\<rparr>"

definition get_post_comment :: request where
  "get_post_comment =
     \<lparr>req_method = ''GET'',
      req_params = [(''action'', ''post-comment''), (''videoId'', ''abc123'')],
      req_json = Inl (SyntaxError ''Unexpected end of JSON input'')\<rparr>"

definition options_post_comment :: request where
  "options_post_comment =
     \<lparr>req_method = ''OPTIONS'',
      req_params = [(''action'', ''post-comment''), (''videoId'', ''abc123'')],
      req_json = Inl (SyntaxError ''Unexpected end of JSON input'')\<rparr>"

definition rejecting :: "js_error \<Rightarrow> (string \<times> string) list \<Rightarrow> request_init \<Rightarrow> fetch_outcome" where
  "rejecting e params options = FetchRejects e"

definition chrome_offline :: client_env where
  "chrome_offline =
     \<lparr>proxy = rejecting (TypeError ''Failed to fetch''),
      toISOString_now = ''2025-07-20T05:44:06.000Z''\<rparr>"

definition safari_offline :: client_env where
  "safari_offline =
     \<lparr>proxy = rejecting (TypeError ''Load failed''),
      toISOString_now = ''2025-07-20T05:44:06.000Z''\<rparr>"

definition answering :: "json \<Rightarrow> (string \<times> string) list \<Rightarrow> request_init \<Rightarrow> fetch_outcome" where
  "answering data params options = FetchResponse True (Inr data)"

definition no_items_online :: client_env where
  "no_items_online =
     \<lparr>proxy = answering (JObj [(''kind'', JStr ''youtube#videoListResponse''), (''items'', JArr [])]),
      toISOString_now = ''2025-07-20T05:44:06.000Z''\<rparr>"

definition one_item_online :: client_env where
  "one_item_online =
     \<lparr>proxy = answering (JObj [(''items'', JArr [JObj [(''id'', JStr ''abc123'')],
                                                    JObj [(''id'', JStr ''other'')]])]),
      toISOString_now = ''2025-07-20T05:44:06.000Z''\<rparr>"

definition alice :: user where
  "alice = \<lparr>user_id = ''user-1'', user_email = Some ''alice@example.com''\<rparr>"

definition comments_env_example :: comments_env where
  "comments_env_example =
     \<lparr>c_videoId = ''abc123'', c_user = Some alice, Date_now = 1752990246000,
      c_toISOString_now = ''2025-07-20T05:44:06.000Z''\<rparr>"

definition comments_state_example :: comments_state where
  "comments_state_example =
     \<lparr>comments =
        [\<lparr>comment_id = ''sample-comment-1'',
          topLevelComment =
            \<lparr>textDisplay = ''first'', authorDisplayName = ''Sample User'',
             publishedAt = ''2025-07-19T00:00:00.000Z'', likeCount = 5\<rparr>,
          totalReplyCount = 0, replies = None\<rparr>],
      c_loading = False, c_error = [], newComment = ''nice video!'', posting = False\<rparr>"

definition row_example :: "string \<Rightarrow> string \<Rightarrow> note_row" where
  "row_example i c =
     \<lparr>note_id = i, note_user_id = ''user-1'', note_video_id = ''abc123'', note_content = c,
      note_created_at = ''2025-07-20T05:44:06.000Z'',
      note_updated_at = ''2025-07-20T05:44:06.000Z''\<rparr>"

definition insert_ok :: "string \<Rightarrow> string \<Rightarrow> string \<Rightarrow> caught + note_row" where
  "insert_ok uid vid c = Inr (row_example ''note-2'' c)"

definition update_ok :: "string \<Rightarrow> string \<Rightarrow> caught + note_row" where
  "update_ok c i = Inr (row_example i c)"

definition delete_ok :: "string \<Rightarrow> caught option" where
  "delete_ok i = None"

definition insert_fails :: "string \<Rightarrow> string \<Rightarrow> string \<Rightarrow> caught + note_row" where
  "insert_fails uid vid c = Inl (ErrorInstance ''new row violates row-level security policy'')"

definition update_fails :: "string \<Rightarrow> string \<Rightarrow> caught + note_row" where
  "update_fails c i = Inl (ErrorInstance ''new row violates row-level security policy'')"

definition delete_fails :: "string \<Rightarrow> caught option" where
  "delete_fails i = Some OtherValue"

definition store_up :: notes_env where
  "store_up =
     \<lparr>n_videoId = ''abc123'', n_user = Some alice, notes_insert = insert_ok,
      notes_update = update_ok, notes_delete = delete_ok, confirm = True\<rparr>"

definition store_down :: notes_env where
  "store_down =
     \<lparr>n_videoId = ''abc123'', n_user = Some alice, notes_insert = insert_fails,
      notes_update = update_fails, notes_delete = delete_fails, confirm = True\<rparr>"

definition notes_state_example :: notes_state where
  "notes_state_example =
     \<lparr>notes_seq = [row_example ''note-1'' ''old text''], n_loading = False, n_error = [],
      editingNote = Some ''note-1'', editContent = '' better hook '',
      newNote = ''improve pacing'', adding = False\<rparr>"

section \<open>Properties of the proxy function\<close>

subsection \<open>The steps of the handler\<close>

lemma try_block_key:
  "YOUTUBE_API_KEY env = Some key \<Longrightarrow> key \<noteq> [] \<Longrightarrow>
     try_block env req =
       (case switch_action key req of
          Inl e \<Rightarrow> (Inl e, [])
        | Inr args \<Rightarrow>
            (case upstream env args of
               FetchRejects e \<Rightarrow> (Inl e, [args])
             | FetchResponse ok parsed \<Rightarrow>
                 (case parsed of
                    Inl e \<Rightarrow> (Inl e, [args])
                  | Inr data \<Rightarrow>
                      (if \<not> ok then (Inl (upstream_error data), [args])
                       else (Inr data, [args])))))"
  by (simp add: try_block_def)

text \<open>The \<open>try\<close> block ends in one of two ways: it throws, or it returns the data
  of the one upstream response, which was ok and parsed.\<close>

lemma try_block_cases:
  "(\<exists>e calls. try_block env req = (Inl e, calls))
   \<or> (\<exists>args data. try_block env req = (Inr data, [args])
         \<and> upstream env args = FetchResponse True (Inr data))"
  by (auto simp: try_block_def split: option.splits sum.splits fetch_outcome.splits)

lemma switch_wrong_method:
  assumes "searchParams_get (req_params req) ''action'' = Some action"
    and "(action, required) \<in> set [(''post-comment'', ''POST''), (''delete-comment'', ''DELETE''),
           (''update-video'', ''PUT'')]"
    and "req_method req \<noteq> required"
  shows "switch_action key req = Inl (Error (required @ '' method required''))"
  using assms by (auto simp: switch_action_def)

subsection \<open>The missing key\<close>

text \<open>
  Claim C5. When \<open>YOUTUBE_API_KEY\<close> is absent from the environment, every request
  but an \<open>OPTIONS\<close> preflight is answered with status 400 and the error
  \<open>YouTube API key not configured\<close>, whatever its action, and no upstream request is
  issued; the preflight is answered with an empty success that carries the cross-origin
  headers, and issues none either.
\<close>

theorem missing_api_key:
  assumes "YOUTUBE_API_KEY env = None"
  shows "handler env req =
     (if req_method req = ''OPTIONS''
      then (\<lparr>res_status = 200, res_headers = corsHeaders env, res_body = None\<rparr>, [])
      else (\<lparr>res_status = 400, res_headers = json_headers (corsHeaders env),
             res_body = Some (JObj [(''error'', JStr ''YouTube API key not configured'')])\<rparr>, []))"
  using assms by (simp add: handler_def try_block_def)

theorem missing_api_key_witness:
  "YOUTUBE_API_KEY unconfigured_env = None
   \<and> handler unconfigured_env details_request =
       (\<lparr>res_status = 400, res_headers = json_headers cors_example,
         res_body = Some (JObj [(''error'', JStr ''YouTube API key not configured'')])\<rparr>, [])
   \<and> handler unconfigured_env options_post_comment =
       (\<lparr>res_status = 200, res_headers = cors_example, res_body = None\<rparr>, [])"
proof -
  have key: "YOUTUBE_API_KEY unconfigured_env = None"
    by (simp add: unconfigured_env_def)
  show ?thesis
    using key missing_api_key [OF key, of details_request]
      missing_api_key [OF key, of options_post_comment]
    by (simp add: unconfigured_env_def details_request_def options_post_comment_def)
qed

subsection \<open>The error envelope\<close>

text \<open>
  Claim C3. The handler is a total function of the request and the environment: every
  \<open>throw\<close> of the \<open>try\<close> block, of \<open>req.json()\<close>, of \<open>fetch\<close> and of
  \<open>response.json()\<close> is a value that the \<open>catch\<close> turns into a response. For a
  request that is not \<open>OPTIONS\<close> the response is either status 400 with the body
  \<open>{error: msg}\<close> for a string \<open>msg\<close>, or status 200 with, as its body, the
  very value the one upstream response (ok, and parsed) carried.
\<close>

theorem handler_envelope:
  assumes "req_method req \<noteq> ''OPTIONS''"
  shows "(\<exists>msg. fst (handler env req) =
            \<lparr>res_status = 400, res_headers = json_headers (corsHeaders env),
             res_body = Some (JObj [(''error'', JStr msg)])\<rparr>)
       \<or> (\<exists>args data. snd (handler env req) = [args]
            \<and> upstream env args = FetchResponse True (Inr data)
            \<and> fst (handler env req) =
                \<lparr>res_status = 200, res_headers = json_headers (corsHeaders env),
                 res_body = Some data\<rparr>)"
  using try_block_cases [of env req] assms
  by (auto simp: handler_def)

theorem handler_envelope_witness:
  "req_method post_with_videoId \<noteq> ''OPTIONS''
   \<and> req_method get_post_comment \<noteq> ''OPTIONS''
   \<and> fst (handler configured_env post_with_videoId) =
        \<lparr>res_status = 200, res_headers = json_headers cors_example,
         res_body = Some (JObj [(''kind'', JStr ''youtube#response'')])\<rparr>
   \<and> fst (handler configured_env get_post_comment) =
        \<lparr>res_status = 400, res_headers = json_headers cors_example,
         res_body = Some (JObj [(''error'', JStr ''POST method required'')])\<rparr>
   \<and> ((\<exists>msg. fst (handler configured_env post_with_videoId) =
            \<lparr>res_status = 400, res_headers = json_headers (corsHeaders configured_env),
             res_body = Some (JObj [(''error'', JStr msg)])\<rparr>)
       \<or> (\<exists>args data. snd (handler configured_env post_with_videoId) = [args]
            \<and> upstream configured_env args = FetchResponse True (Inr data)
            \<and> fst (handler configured_env post_with_videoId) =
                \<lparr>res_status = 200, res_headers = json_headers (corsHeaders configured_env),
                 res_body = Some data\<rparr>))"
proof -
  have m: "req_method post_with_videoId \<noteq> ''OPTIONS''" "req_method get_post_comment \<noteq> ''OPTIONS''"
    by (simp_all add: post_with_videoId_def get_post_comment_def)
  have ok: "fst (handler configured_env post_with_videoId) =
        \<lparr>res_status = 200, res_headers = json_headers cors_example,
         res_body = Some (JObj [(''kind'', JStr ''youtube#response'')])\<rparr>"
    by (simp add: handler_def try_block_def switch_action_def configured_env_def upstream_ok_def
        post_with_videoId_def token_body_def searchParams_get_def destructured_def template_def)
  have bad: "fst (handler configured_env get_post_comment) =
        \<lparr>res_status = 400, res_headers = json_headers cors_example,
         res_body = Some (JObj [(''error'', JStr ''POST method required'')])\<rparr>"
    by (simp add: handler_def try_block_def switch_action_def configured_env_def
        get_post_comment_def searchParams_get_def)
  from m ok bad handler_envelope [OF m(1), of configured_env] show ?thesis
    by blast
qed

subsection \<open>The wrong method\<close>

text \<open>
  Claim C4, as the code has it. The switch has three mutating actions, \<open>post-comment\<close>,
  \<open>delete-comment\<close> and \<open>update-video\<close>. With the key configured, a request for
  one of them whose method is neither the required one nor \<open>OPTIONS\<close> is answered
  with status 400 and the error \<open>POST method required\<close>, \<open>DELETE method
  required\<close> or \<open>PUT method required\<close>, and no upstream request is issued.
\<close>

theorem wrong_method:
  assumes "YOUTUBE_API_KEY env = Some key" and "key \<noteq> []"
    and "searchParams_get (req_params req) ''action'' = Some action"
    and "(action, required) \<in> set [(''post-comment'', ''POST''), (''delete-comment'', ''DELETE''),
           (''update-video'', ''PUT'')]"
    and "req_method req \<noteq> required" and "req_method req \<noteq> ''OPTIONS''"
  shows "handler env req =
           (\<lparr>res_status = 400, res_headers = json_headers (corsHeaders env),
             res_body = Some (JObj [(''error'', JStr (required @ '' method required''))])\<rparr>, [])"
  using assms(1,2,6) switch_wrong_method [OF assms(3,4,5), of key]
  by (simp add: handler_def try_block_key)

theorem wrong_method_witness:
  "YOUTUBE_API_KEY configured_env = Some ''server-key''
   \<and> searchParams_get (req_params get_post_comment) ''action'' = Some ''post-comment''
   \<and> req_method get_post_comment = ''GET''
   \<and> handler configured_env get_post_comment =
       (\<lparr>res_status = 400, res_headers = json_headers cors_example,
         res_body = Some (JObj [(''error'', JStr ''POST method required'')])\<rparr>, [])"
proof -
  have k: "YOUTUBE_API_KEY configured_env = Some ''server-key''"
    by (simp add: configured_env_def)
  have a: "searchParams_get (req_params get_post_comment) ''action'' = Some ''post-comment''"
    by (simp add: get_post_comment_def searchParams_get_def)
  have m: "req_method get_post_comment = ''GET''"
    by (simp add: get_post_comment_def)
  have "handler configured_env get_post_comment =
       (\<lparr>res_status = 400, res_headers = json_headers (corsHeaders configured_env),
         res_body = Some (JObj [(''error'', JStr (''POST'' @ '' method required''))])\<rparr>, [])"
    by (rule wrong_method [OF k _ a]) (simp_all add: m)
  with k a m show ?thesis
    by (simp add: configured_env_def)
qed

text \<open>
  The claim as the specification words it fails on two requests for \<open>post-comment\<close>
  with a wrong method: the preflight, which is answered with an empty success, and a
  \<open>GET\<close> to a proxy without its key, whose error names the key and not the method.
\<close>

theorem wrong_method_counterexample:
  "req_method options_post_comment \<noteq> ''POST''
   \<and> handler configured_env options_post_comment =
       (\<lparr>res_status = 200, res_headers = cors_example, res_body = None\<rparr>, [])
   \<and> req_method get_post_comment \<noteq> ''POST''
   \<and> handler unconfigured_env get_post_comment =
       (\<lparr>res_status = 400, res_headers = json_headers cors_example,
         res_body = Some (JObj [(''error'', JStr ''YouTube API key not configured'')])\<rparr>, [])"
  by (simp add: handler_def try_block_def configured_env_def unconfigured_env_def
      options_post_comment_def get_post_comment_def)

subsection \<open>Required parameters\<close>

text \<open>A mutating case looks at the method and at the body, never at \<open>videoId\<close>
  or \<open>commentId\<close>: with the right method and a body it can read, it reaches its
  \<open>fetch\<close>.\<close>

lemma mutating_case_checks_method_only:
  assumes "searchParams_get (req_params req) ''action'' = Some action"
    and "(action, required) \<in> set [(''post-comment'', ''POST''), (''delete-comment'', ''DELETE''),
           (''update-video'', ''PUT'')]"
    and "req_method req = required"
    and "req_json req = Inr body" and "body \<noteq> JNull"
    and "template (js_get body ''accessToken'') = Inr token"
  shows "\<exists>args. switch_action key req = Inr args"
  using assms
  by (cases body) (auto simp: switch_action_def destructured_def)

text \<open>
  Claim C2 says that a mutating request without its required parameter is refused with
  status 400 before any upstream request. The read actions do check \<open>videoId\<close>; the
  three mutating cases check the method only. Run on a \<open>POST\<close> for
  \<open>post-comment\<close> and a \<open>PUT\<close> for \<open>update-video\<close> without \<open>videoId\<close>,
  and on a \<open>DELETE\<close> for \<open>delete-comment\<close> without \<open>commentId\<close>, the
  handler sends the upstream request all the same (with \<open>videoId\<close> or \<open>id\<close>
  \<open>null\<close>, and with the URL \<open>comments?id=null\<close>) and passes on what the upstream
  answers.
\<close>

theorem missing_parameter_reaches_upstream:
  "searchParams_get (req_params post_without_videoId) ''videoId'' = None
   \<and> handler configured_env post_without_videoId =
       (\<lparr>res_status = 200, res_headers = json_headers cors_example,
         res_body = Some (JObj [(''kind'', JStr ''youtube#response'')])\<rparr>,
        [\<lparr>fetch_url = ''https://www.googleapis.com/youtube/v3/commentThreads?part=snippet'',
          fetch_method = ''POST'',
          fetch_headers = [(''Authorization'', ''Bearer token''),
                           (''Content-Type'', ''application/json'')],
          fetch_body = Some (JObj [(''snippet'', JObj
            [(''videoId'', JNull),
             (''topLevelComment'', JObj [(''snippet'', JObj
                [(''textOriginal'', JStr ''nice video!'')])])])])\<rparr>])
   \<and> searchParams_get (req_params update_without_videoId) ''videoId'' = None
   \<and> handler configured_env update_without_videoId =
       (\<lparr>res_status = 200, res_headers = json_headers cors_example,
         res_body = Some (JObj [(''kind'', JStr ''youtube#response'')])\<rparr>,
        [\<lparr>fetch_url = ''https://www.googleapis.com/youtube/v3/videos?part=snippet'',
          fetch_method = ''PUT'',
          fetch_headers = [(''Authorization'', ''Bearer token''),
                           (''Content-Type'', ''application/json'')],
          fetch_body = Some (JObj
            [(''id'', JNull),
             (''snippet'', JObj
                [(''title'', JStr ''New title''), (''description'', JStr ''New description''),
                 (''categoryId'', JStr ''22'')])])\<rparr>])
   \<and> searchParams_get (req_params delete_without_commentId) ''commentId'' = None
   \<and> handler configured_env delete_without_commentId =
       (\<lparr>res_status = 200, res_headers = json_headers cors_example,
         res_body = Some (JObj [(''kind'', JStr ''youtube#response'')])\<rparr>,
        [\<lparr>fetch_url = ''https://www.googleapis.com/youtube/v3/comments?id=null'',
          fetch_method = ''DELETE'',
          fetch_headers = [(''Authorization'', ''Bearer token'')],
          fetch_body = None\<rparr>])"
  by (simp add: handler_def try_block_def switch_action_def configured_env_def upstream_ok_def
      post_without_videoId_def update_without_videoId_def delete_without_commentId_def
      token_body_def searchParams_get_def destructured_def template_def json_member_def
      nullable_def template_nullable_def YOUTUBE_BASE_URL_def)

subsection \<open>The flow of the API key\<close>








section \<open>Properties of the browser client\<close>

lemma makeYouTubeRequest_rejects:
  "proxy env params options = FetchRejects e \<Longrightarrow>
     makeYouTubeRequest env params options =
       (if not_available e then Inr (getMockData env params) else Inl e)"
  by (simp add: makeYouTubeRequest_def catch_error_def)

lemma getMockData_other:
  "searchParams_get params ''action'' \<noteq> Some ''video-details'' \<Longrightarrow>
   searchParams_get params ''action'' \<noteq> Some ''comments'' \<Longrightarrow>
     getMockData env params = JObj [(''items'', JArr [])]"
  by (simp add: getMockData_def)

subsection \<open>Mutating calls when the proxy cannot be reached\<close>

text \<open>
  Claim C1, as the code has it. The \<open>catch\<close> of \<open>makeYouTubeRequest\<close> does not
  look at the action. When \<open>fetch\<close> rejects with an error the client recognises (a
  \<open>TypeError\<close> whose message includes \<open>fetch\<close>), each of \<open>postComment\<close>,
  \<open>deleteComment\<close> and \<open>updateVideo\<close> resolves to the default of
  \<open>getMockData\<close>, \<open>{items: []}\<close>; when it rejects with any other error, the call
  rejects with that same error. \<open>getMockData\<close> gives anything but \<open>{items: []}\<close>
  for the actions \<open>video-details\<close> and \<open>comments\<close> only.
\<close>

theorem mutating_calls_when_fetch_rejects:
  assumes "\<forall>params options. proxy env params options = FetchRejects e"
  shows "postComment env videoId txt accessToken =
           (if not_available e then Inr (JObj [(''items'', JArr [])]) else Inl e)
       \<and> deleteComment env commentId accessToken =
           (if not_available e then Inr (JObj [(''items'', JArr [])]) else Inl e)
       \<and> updateVideo env videoId title description accessToken =
           (if not_available e then Inr (JObj [(''items'', JArr [])]) else Inl e)
       \<and> (getMockData env params \<noteq> JObj [(''items'', JArr [])] \<longrightarrow>
            searchParams_get params ''action'' = Some ''video-details''
            \<or> searchParams_get params ''action'' = Some ''comments'')"
proof -
  have "getMockData env [(''action'', ''post-comment''), (''videoId'', videoId)]
          = JObj [(''items'', JArr [])]"
    by (rule getMockData_other) (simp_all add: searchParams_get_def)
  moreover have "getMockData env [(''action'', ''delete-comment''), (''commentId'', commentId)]
          = JObj [(''items'', JArr [])]"
    by (rule getMockData_other) (simp_all add: searchParams_get_def)
  moreover have "getMockData env [(''action'', ''update-video''), (''videoId'', videoId)]
          = JObj [(''items'', JArr [])]"
    by (rule getMockData_other) (simp_all add: searchParams_get_def)
  moreover have "getMockData env params \<noteq> JObj [(''items'', JArr [])] \<longrightarrow>
            searchParams_get params ''action'' = Some ''video-details''
            \<or> searchParams_get params ''action'' = Some ''comments''"
    using getMockData_other [of params env] by blast
  ultimately show ?thesis
    using assms
    by (simp add: postComment_def deleteComment_def updateVideo_def makeYouTubeRequest_rejects)
qed

theorem mutating_calls_when_fetch_rejects_witness:
  "(\<forall>params options. proxy safari_offline params options = FetchRejects (TypeError ''Load failed''))
   \<and> \<not> not_available (TypeError ''Load failed'')
   \<and> postComment safari_offline ''abc123'' ''nice video!'' ''token'' = Inl (TypeError ''Load failed'')
   \<and> deleteComment safari_offline ''comment-1'' ''token'' = Inl (TypeError ''Load failed'')
   \<and> updateVideo safari_offline ''abc123'' ''New title'' ''New description'' ''token''
       = Inl (TypeError ''Load failed'')
   \<and> (\<forall>params options. proxy chrome_offline params options = FetchRejects (TypeError ''Failed to fetch''))
   \<and> not_available (TypeError ''Failed to fetch'')
   \<and> postComment chrome_offline ''abc123'' ''nice video!'' ''token'' = Inr (JObj [(''items'', JArr [])])
   \<and> deleteComment chrome_offline ''comment-1'' ''token'' = Inr (JObj [(''items'', JArr [])])
   \<and> updateVideo chrome_offline ''abc123'' ''New title'' ''New description'' ''token''
       = Inr (JObj [(''items'', JArr [])])"
proof -
  have p: "\<forall>params options. proxy safari_offline params options = FetchRejects (TypeError ''Load failed'')"
    by (simp add: safari_offline_def rejecting_def)
  have n: "\<not> not_available (TypeError ''Load failed'')"
    by (simp add: not_available_def)
  have p': "\<forall>params options. proxy chrome_offline params options = FetchRejects (TypeError ''Failed to fetch'')"
    by (simp add: chrome_offline_def rejecting_def)
  have n': "not_available (TypeError ''Failed to fetch'')"
    by (simp add: not_available_def)
  from p n p' n'
    mutating_calls_when_fetch_rejects [OF p, of "''abc123''" "''nice video!''" "''token''"
      "''comment-1''" "''New title''" "''New description''" "[]"]
    mutating_calls_when_fetch_rejects [OF p', of "''abc123''" "''nice video!''" "''token''"
      "''comment-1''" "''New title''" "''New description''" "[]"]
  show ?thesis
    by simp
qed

text \<open>
  The claim as the specification words it fails in a browser that words the failure
  \<open>Failed to fetch\<close>: the three mutating calls do not reject, they resolve to
  \<open>{items: []}\<close>.
\<close>

theorem mutating_calls_counterexample:
  "proxy chrome_offline [(''action'', ''post-comment''), (''videoId'', ''abc123'')]
     \<lparr>init_method = Some ''POST'',
      init_body = Some (JObj [(''accessToken'', JStr ''token''), (''text'', JStr ''nice video!'')])\<rparr>
     = FetchRejects (TypeError ''Failed to fetch'')
   \<and> postComment chrome_offline ''abc123'' ''nice video!'' ''token''
       = Inr (JObj [(''items'', JArr [])])
   \<and> deleteComment chrome_offline ''comment-1'' ''token'' = Inr (JObj [(''items'', JArr [])])
   \<and> updateVideo chrome_offline ''abc123'' ''New title'' ''New description'' ''token''
       = Inr (JObj [(''items'', JArr [])])"
  by (simp add: postComment_def deleteComment_def updateVideo_def makeYouTubeRequest_def
      catch_error_def not_available_def getMockData_def searchParams_get_def
      chrome_offline_def rejecting_def)

subsection \<open>The placeholder video\<close>

text \<open>
  When the \<open>fetch\<close> of a \<open>video-details\<close> call rejects with a
  \<open>TypeError\<close> whose message includes \<open>fetch\<close>, \<open>getVideoDetails\<close>
  resolves, for every \<open>videoId\<close>, to the placeholder video: its \<open>id\<close> is
  the \<open>videoId\<close> asked for, its \<open>status.privacyStatus\<close> is \<open>public\<close>,
  and every field of \<open>snippet\<close>, \<open>statistics\<close> and \<open>status\<close> is
  there. When it rejects with any other error, the call rejects with that error.
\<close>

lemma placeholder_video:
  assumes "proxy env [(''action'', ''video-details''), (''videoId'', videoId)] no_options
             = FetchRejects (TypeError m)"
    and "js_includes m ''fetch''"
  shows "getVideoDetails env videoId =
     Inr (Some (JObj
       [(''id'', JStr videoId),
        (''snippet'', JObj
           [(''title'', JStr ''Sample YouTube Video''),
            (''description'', JStr (''This is a sample video description. The actual ''
               @ ''video details would be fetched from the YouTube API when the Edge ''
               @ ''Function is properly deployed.'')),
            (''thumbnails'', JObj [(''high'', JObj [(''url'',
               JStr (''https://img.youtube.com/vi/'' @ videoId @ ''/hqdefault.jpg''))])]),
            (''publishedAt'', JStr (toISOString_now env)),
            (''channelTitle'', JStr ''Sample Channel'')]),
        (''statistics'', JObj
           [(''viewCount'', JStr ''1234567''),
            (''likeCount'', JStr ''12345''),
            (''commentCount'', JStr ''567'')]),
        (''status'', JObj [(''privacyStatus'', JStr ''public'')])]))"
  using assms
  by (simp add: getVideoDetails_def makeYouTubeRequest_rejects not_available_def
      getMockData_def searchParams_get_def first_item_def nullable_def template_nullable_def)

lemma placeholder_video_at_Failed_to_fetch:
  "proxy chrome_offline [(''action'', ''video-details''), (''videoId'', ''abc123'')] no_options
     = FetchRejects (TypeError ''Failed to fetch'')
   \<and> js_includes ''Failed to fetch'' ''fetch''
   \<and> (case getVideoDetails chrome_offline ''abc123'' of
        Inr (Some video) \<Rightarrow>
          js_get video ''id'' = Some (JStr ''abc123'')
          \<and> js_get video ''status'' = Some (JObj [(''privacyStatus'', JStr ''public'')])
      | _ \<Rightarrow> False)"
proof -
  have p: "proxy chrome_offline [(''action'', ''video-details''), (''videoId'', ''abc123'')] no_options
     = FetchRejects (TypeError ''Failed to fetch'')"
    by (simp add: chrome_offline_def rejecting_def)
  have i: "js_includes ''Failed to fetch'' ''fetch''"
    by simp
  from p i placeholder_video [OF p i] show ?thesis
    by simp
qed

lemma other_failures_propagate:
  assumes "proxy env [(''action'', ''video-details''), (''videoId'', videoId)] no_options
             = FetchRejects e"
    and "\<not> not_available e"
  shows "getVideoDetails env videoId = Inl e"
  using assms by (simp add: getVideoDetails_def makeYouTubeRequest_rejects)

text \<open>
  Claim C8 says that \<open>getVideoDetails\<close> resolves to the placeholder video on any
  failure of the transport, and the comment over the \<open>catch\<close> says as much: if the
  Edge Function is not available, fall back to mock data. The test the code writes for
  it asks the message of the \<open>TypeError\<close> to include \<open>fetch\<close>, and misses a
  browser that words the same failure \<open>Load failed\<close>: there the error is thrown
  again, \<open>getVideoDetails\<close> rejects, and no placeholder is returned.
\<close>

theorem load_failed_is_rethrown:
  "proxy safari_offline [(''action'', ''video-details''), (''videoId'', ''abc123'')] no_options
     = FetchRejects (TypeError ''Load failed'')
   \<and> getVideoDetails safari_offline ''abc123'' = Inl (TypeError ''Load failed'')"
  by (simp add: getVideoDetails_def makeYouTubeRequest_def catch_error_def not_available_def
      safari_offline_def rejecting_def)

subsection \<open>The first item of the list\<close>

lemma first_item_of_list:
  assumes "js_get data ''items'' = Some (JArr xs)"
  shows "first_item data = Inr (case xs of [] \<Rightarrow> None | x # rest \<Rightarrow> Some x)"
  using assms by (cases data; cases xs) (simp_all add: first_item_def)

lemma fallback_has_one_item:
  "\<exists>item. getMockData env [(''action'', ''video-details''), (''videoId'', videoId)]
           = JObj [(''items'', JArr [item])]"
  by (simp add: getMockData_def searchParams_get_def Let_def)

text \<open>
  Claim C9, as the code has it. \<open>getVideoDetails\<close> returns \<open>data.items[0]\<close>
  without looking at the length of \<open>items\<close>: whenever the request resolves to data
  whose \<open>items\<close> is a list, the call resolves to the first element of that list,
  and to \<open>undefined\<close> (the \<open>None\<close> of the model) when the list is empty; it
  throws nothing. The empty list is reached by an ok response, as for an unknown video.
  It is not reached by the fallback: \<open>getVideoDetails\<close> always asks for
  \<open>video-details\<close>, for which the mock data has exactly one item, and the default
  \<open>{items: []}\<close> of \<open>getMockData\<close> is for the actions other than
  \<open>video-details\<close> and \<open>comments\<close>.
\<close>

theorem first_item_unchecked:
  "(makeYouTubeRequest env [(''action'', ''video-details''), (''videoId'', videoId)] no_options
        = Inr data
      \<and> js_get data ''items'' = Some (JArr xs)
     \<longrightarrow> getVideoDetails env videoId = Inr (case xs of [] \<Rightarrow> None | x # rest \<Rightarrow> Some x))
   \<and> getVideoDetails no_items_online videoId = Inr None
   \<and> (proxy env [(''action'', ''video-details''), (''videoId'', videoId)] no_options
        = FetchRejects e
      \<and> not_available e
     \<longrightarrow> (\<exists>item. makeYouTubeRequest env [(''action'', ''video-details''), (''videoId'', videoId)]
                    no_options = Inr (JObj [(''items'', JArr [item])])
                \<and> getVideoDetails env videoId = Inr (Some item)))
   \<and> (\<exists>item. getMockData env [(''action'', ''video-details''), (''videoId'', videoId)]
                = JObj [(''items'', JArr [item])])
   \<and> (getMockData env params = JObj [(''items'', JArr [])]
     \<longrightarrow> searchParams_get params ''action'' \<noteq> Some ''video-details''
         \<and> searchParams_get params ''action'' \<noteq> Some ''comments'')"
proof (intro conjI impI)
  assume "makeYouTubeRequest env [(''action'', ''video-details''), (''videoId'', videoId)] no_options
        = Inr data \<and> js_get data ''items'' = Some (JArr xs)"
  then show "getVideoDetails env videoId = Inr (case xs of [] \<Rightarrow> None | x # rest \<Rightarrow> Some x)"
    by (simp add: getVideoDetails_def first_item_of_list)
next
  have "makeYouTubeRequest no_items_online [(''action'', ''video-details''), (''videoId'', videoId)]
          no_options
        = Inr (JObj [(''kind'', JStr ''youtube#videoListResponse''), (''items'', JArr [])])"
    by (simp add: makeYouTubeRequest_def no_items_online_def answering_def)
  then show "getVideoDetails no_items_online videoId = Inr None"
    by (simp add: getVideoDetails_def first_item_def)
next
  assume a: "proxy env [(''action'', ''video-details''), (''videoId'', videoId)] no_options
        = FetchRejects e \<and> not_available e"
  obtain item where i: "getMockData env [(''action'', ''video-details''), (''videoId'', videoId)]
           = JObj [(''items'', JArr [item])]"
    using fallback_has_one_item by blast
  from a have "makeYouTubeRequest env [(''action'', ''video-details''), (''videoId'', videoId)]
      no_options = Inr (JObj [(''items'', JArr [item])])"
    by (simp add: makeYouTubeRequest_rejects i)
  moreover from this have "getVideoDetails env videoId = Inr (Some item)"
    by (simp add: getVideoDetails_def first_item_def)
  ultimately show "\<exists>item. makeYouTubeRequest env [(''action'', ''video-details''), (''videoId'', videoId)]
                    no_options = Inr (JObj [(''items'', JArr [item])])
                \<and> getVideoDetails env videoId = Inr (Some item)"
    by blast
next
  show "\<exists>item. getMockData env [(''action'', ''video-details''), (''videoId'', videoId)]
                = JObj [(''items'', JArr [item])]"
    by (rule fallback_has_one_item)
next
  assume "getMockData env params = JObj [(''items'', JArr [])]"
  then show "searchParams_get params ''action'' \<noteq> Some ''video-details''"
    by (auto simp: getMockData_def Let_def)
next
  assume "getMockData env params = JObj [(''items'', JArr [])]"
  then show "searchParams_get params ''action'' \<noteq> Some ''comments''"
    by (auto simp: getMockData_def Let_def split: if_splits)
qed

theorem first_item_unchecked_witness:
  "getVideoDetails one_item_online ''abc123'' = Inr (Some (JObj [(''id'', JStr ''abc123'')]))
   \<and> getVideoDetails no_items_online ''unknown'' = Inr None
   \<and> (\<exists>item. js_get item ''id'' = Some (JStr ''abc123'')
         \<and> getVideoDetails chrome_offline ''abc123'' = Inr (Some item))"
proof -
  let ?p = "[(''action'', ''video-details''), (''videoId'', ''abc123'')]"
  let ?d = "JObj [(''items'', JArr [JObj [(''id'', JStr ''abc123'')], JObj [(''id'', JStr ''other'')]])]"
  have r: "makeYouTubeRequest one_item_online ?p no_options = Inr ?d
           \<and> js_get ?d ''items'' = Some (JArr [JObj [(''id'', JStr ''abc123'')], JObj [(''id'', JStr ''other'')]])"
    by (simp add: makeYouTubeRequest_def one_item_online_def answering_def)
  have f: "proxy chrome_offline ?p no_options = FetchRejects (TypeError ''Failed to fetch'')
           \<and> not_available (TypeError ''Failed to fetch'')"
    by (simp add: chrome_offline_def rejecting_def not_available_def)
  have m: "makeYouTubeRequest chrome_offline ?p no_options = Inr (getMockData chrome_offline ?p)"
    using f by (simp add: makeYouTubeRequest_rejects)
  have g: "\<And>item. getMockData chrome_offline ?p = JObj [(''items'', JArr [item])]
             \<Longrightarrow> js_get item ''id'' = Some (JStr ''abc123'')"
    by (auto simp: getMockData_def searchParams_get_def nullable_def Let_def)
  from first_item_unchecked [of one_item_online "''abc123''" ?d
      "[JObj [(''id'', JStr ''abc123'')], JObj [(''id'', JStr ''other'')]]" "TypeError ''x''" "[]"] r
  have a: "getVideoDetails one_item_online ''abc123'' = Inr (Some (JObj [(''id'', JStr ''abc123'')]))"
    by simp
  from first_item_unchecked [of chrome_offline "''unknown''" ?d "[]" "TypeError ''x''" "[]"]
  have b: "getVideoDetails no_items_online ''unknown'' = Inr None"
    by simp
  from first_item_unchecked [of chrome_offline "''abc123''" ?d "[]" "TypeError ''Failed to fetch''" "[]"] f
  obtain item where c: "makeYouTubeRequest chrome_offline ?p no_options = Inr (JObj [(''items'', JArr [item])])"
      "getVideoDetails chrome_offline ''abc123'' = Inr (Some item)"
    by blast
  from c(1) m have "getMockData chrome_offline ?p = JObj [(''items'', JArr [item])]"
    by simp
  then have "js_get item ''id'' = Some (JStr ''abc123'')"
    by (rule g)
  with a b c(2) show ?thesis
    by blast
qed

text \<open>
  The claim as the specification words it names the fallback's \<open>{items: []}\<close> as
  a response with an empty list. On the fallback of a \<open>video-details\<close> call the
  list is not empty and the result is not absent.
\<close>

theorem first_item_unchecked_counterexample:
  "proxy chrome_offline [(''action'', ''video-details''), (''videoId'', ''abc123'')] no_options
     = FetchRejects (TypeError ''Failed to fetch'')
   \<and> js_get (getMockData chrome_offline [(''action'', ''video-details''), (''videoId'', ''abc123'')])
        ''items'' \<noteq> Some (JArr [])
   \<and> getVideoDetails chrome_offline ''abc123'' \<noteq> Inr None"
  by (simp add: getVideoDetails_def makeYouTubeRequest_def catch_error_def not_available_def
      getMockData_def searchParams_get_def first_item_def chrome_offline_def rejecting_def
      Let_def)

section \<open>Properties of the panels\<close>

subsection \<open>The sequence of notes\<close>

text \<open>
  Claim C6. From any state of the notes panel: when the store answers an add with a
  row, the new sequence is that row in front of the old one; when it answers the edit
  of \<open>noteId\<close> with a row, the new sequence is the old one with every note of that
  id replaced by the row and every other note as it was; when it answers the delete of
  \<open>noteId\<close> without an error, the new sequence is the old one without the notes of
  that id. When the store answers with an error, the state is the old one with the
  error string set, and nothing else changed (after an add, the flag \<open>adding\<close> is
  back to false).
\<close>

theorem notes_sequence:
  "(n_user env = Some u \<and> trim (newNote s) \<noteq> []
      \<and> notes_insert env (user_id u) (n_videoId env) (trim (newNote s)) = Inr row
     \<longrightarrow> notes_seq (fst (handleAddNote env s)) = row # notes_seq s)
   \<and> (n_user env = Some u \<and> trim (newNote s) \<noteq> []
      \<and> notes_insert env (user_id u) (n_videoId env) (trim (newNote s)) = Inl err
     \<longrightarrow> fst (handleAddNote env s)
           = s\<lparr>n_error := message_or err ''Failed to add note'', adding := False\<rparr>)
   \<and> (trim (editContent s) \<noteq> []
      \<and> notes_update env (trim (editContent s)) noteId = Inr row
     \<longrightarrow> notes_seq (fst (handleEditNote env s noteId))
           = map (\<lambda>note. if note_id note = noteId then row else note) (notes_seq s))
   \<and> (trim (editContent s) \<noteq> []
      \<and> notes_update env (trim (editContent s)) noteId = Inl err
     \<longrightarrow> fst (handleEditNote env s noteId)
           = s\<lparr>n_error := message_or err ''Failed to update note''\<rparr>)
   \<and> (confirm env \<and> notes_delete env noteId = None
     \<longrightarrow> notes_seq (fst (handleDeleteNote env s noteId))
           = filter (\<lambda>note. note_id note \<noteq> noteId) (notes_seq s))
   \<and> (confirm env \<and> notes_delete env noteId = Some err
     \<longrightarrow> fst (handleDeleteNote env s noteId)
           = s\<lparr>n_error := message_or err ''Failed to delete note''\<rparr>)"
  by (simp add: handleAddNote_def handleEditNote_def handleDeleteNote_def)

theorem notes_sequence_witness:
  "notes_seq (fst (handleAddNote store_up notes_state_example))
     = [row_example ''note-2'' ''improve pacing'', row_example ''note-1'' ''old text'']
   \<and> notes_seq (fst (handleEditNote store_up notes_state_example ''note-1''))
     = [row_example ''note-1'' ''better hook'']
   \<and> notes_seq (fst (handleDeleteNote store_up notes_state_example ''note-1'')) = []
   \<and> fst (handleAddNote store_down notes_state_example)
     = notes_state_example\<lparr>n_error := ''new row violates row-level security policy''\<rparr>
   \<and> fst (handleEditNote store_down notes_state_example ''note-1'')
     = notes_state_example\<lparr>n_error := ''new row violates row-level security policy''\<rparr>
   \<and> fst (handleDeleteNote store_down notes_state_example ''note-1'')
     = notes_state_example\<lparr>n_error := ''Failed to delete note''\<rparr>"
proof -
  have t: "trim (newNote notes_state_example) = ''improve pacing''"
    "trim (editContent notes_state_example) = ''better hook''"
    by (simp_all add: notes_state_example_def trim_def is_white_space_def)
  have up: "n_user store_up = Some alice \<and> trim (newNote notes_state_example) \<noteq> []
      \<and> notes_insert store_up (user_id alice) (n_videoId store_up) (trim (newNote notes_state_example))
          = Inr (row_example ''note-2'' ''improve pacing'')"
    "trim (editContent notes_state_example) \<noteq> []
      \<and> notes_update store_up (trim (editContent notes_state_example)) ''note-1''
          = Inr (row_example ''note-1'' ''better hook'')"
    "confirm store_up \<and> notes_delete store_up ''note-1'' = None"
    by (simp_all add: t store_up_def insert_ok_def update_ok_def delete_ok_def)
  have down: "n_user store_down = Some alice \<and> trim (newNote notes_state_example) \<noteq> []
      \<and> notes_insert store_down (user_id alice) (n_videoId store_down) (trim (newNote notes_state_example))
          = Inl (ErrorInstance ''new row violates row-level security policy'')"
    "trim (editContent notes_state_example) \<noteq> []
      \<and> notes_update store_down (trim (editContent notes_state_example)) ''note-1''
          = Inl (ErrorInstance ''new row violates row-level security policy'')"
    "confirm store_down \<and> notes_delete store_down ''note-1'' = Some OtherValue"
    by (simp_all add: t store_down_def insert_fails_def update_fails_def delete_fails_def)
  have seq: "notes_seq notes_state_example = [row_example ''note-1'' ''old text'']"
    "adding notes_state_example = False"
    by (simp_all add: notes_state_example_def)
  from notes_sequence [of store_up alice notes_state_example "row_example ''note-2'' ''improve pacing''"
      OtherValue "''note-1''"]
    notes_sequence [of store_up alice notes_state_example "row_example ''note-1'' ''better hook''"
      OtherValue "''note-1''"]
    notes_sequence [of store_down alice notes_state_example "row_example ''note-1'' ''better hook''"
      "ErrorInstance ''new row violates row-level security policy''" "''note-1''"]
    notes_sequence [of store_down alice notes_state_example "row_example ''note-1'' ''better hook''"
      OtherValue "''note-1''"]
    up down
  show ?thesis
    by (simp add: seq row_example_def message_or_def notes_state_example_def)
qed

subsection \<open>The sequence of comments\<close>

text \<open>
  Claim C7, as the code has it. For a signed-in user and a text that is not blank, the
  post handler puts in front of the sequence a comment whose identifier is \<open>mock-\<close>
  followed by the clock's reading, with the text as typed, like count 0 and reply count
  0. The delete handler keeps exactly the comments whose identifier differs from the
  one given, and leaves the error string as it was. Neither calls the proxy; each
  awaits one call over the network, the insert of \<open>logEvent\<close> into
  \<open>event_logs\<close> (\<open>comment_attempted\<close>, \<open>comment_deleted\<close>), which the
  delete handler omits when no user is signed in.
\<close>

theorem comments_sequence:
  "(c_user env = Some u \<and> trim (newComment s) \<noteq> [] \<longrightarrow>
      fst (handlePostComment env s) =
        s\<lparr>comments :=
            \<lparr>comment_id = ''mock-'' @ show_int (Date_now env),
             topLevelComment =
               \<lparr>textDisplay = newComment s, authorDisplayName = email_or_You u,
                publishedAt = c_toISOString_now env, likeCount = 0\<rparr>,
             totalReplyCount = 0, replies = None\<rparr> # comments s,
          newComment := [], posting := False\<rparr>
      \<and> snd (handlePostComment env s) =
          [EventLogInsert (user_id u) ''comment_attempted''
             (JObj [(''videoId'', JStr (c_videoId env)), (''commentText'', JStr (newComment s))])])
   \<and> fst (handleDeleteComment env s commentId) =
        s\<lparr>comments := filter (\<lambda>c. comment_id c \<noteq> commentId) (comments s)\<rparr>
   \<and> c_error (fst (handleDeleteComment env s commentId)) = c_error s
   \<and> snd (handleDeleteComment env s commentId) =
        (case c_user env of
           None \<Rightarrow> []
         | Some usr \<Rightarrow>
             [EventLogInsert (user_id usr) ''comment_deleted''
                (JObj [(''videoId'', JStr (c_videoId env)), (''commentId'', JStr commentId)])])"
  by (simp add: handlePostComment_def handleDeleteComment_def mockComment_def logEvent_def)

theorem comments_sequence_witness:
  "c_user comments_env_example = Some alice
   \<and> trim (newComment comments_state_example) \<noteq> []
   \<and> map comment_id (comments (fst (handlePostComment comments_env_example comments_state_example)))
       = [''mock-1752990246000'', ''sample-comment-1'']
   \<and> map (textDisplay \<circ> topLevelComment)
         (comments (fst (handlePostComment comments_env_example comments_state_example)))
       = [''nice video!'', ''first'']
   \<and> comments (fst (handleDeleteComment comments_env_example comments_state_example
         ''sample-comment-1'')) = []"
proof -
  have h: "c_user comments_env_example = Some alice \<and> trim (newComment comments_state_example) \<noteq> []"
    by (simp add: comments_env_example_def comments_state_example_def trim_def is_white_space_def)
  have d: "show_int (Date_now comments_env_example) = ''1752990246000''"
    by (simp add: comments_env_example_def show_int_def digits.simps)
  from h comments_sequence [of comments_env_example alice comments_state_example "''sample-comment-1''"]
  show ?thesis
    by (simp add: d comments_state_example_def)
qed

text \<open>
  The claim as the specification words it, without any network call, fails for a
  signed-in user: both handlers send the insert of their event.
\<close>

theorem comments_sequence_counterexample:
  "c_user comments_env_example = Some alice
   \<and> trim (newComment comments_state_example) = ''nice video!''
   \<and> snd (handlePostComment comments_env_example comments_state_example) =
       [EventLogInsert ''user-1'' ''comment_attempted''
          (JObj [(''videoId'', JStr ''abc123''), (''commentText'', JStr ''nice video!'')])]
   \<and> snd (handleDeleteComment comments_env_example comments_state_example ''sample-comment-1'') =
       [EventLogInsert ''user-1'' ''comment_deleted''
          (JObj [(''videoId'', JStr ''abc123''), (''commentId'', JStr ''sample-comment-1'')])]"
  by (simp add: handlePostComment_def handleDeleteComment_def logEvent_def
      comments_env_example_def comments_state_example_def alice_def trim_def is_white_space_def)

end
